theory Spec2Isabelle
  imports Main
begin

section \<open>Python values, errors, requests and responses\<close>

text \<open>
  The values the client passes around: what \<^verbatim>\<open>json.loads\<close> returns and
  \<^verbatim>\<open>json.dumps\<close> accepts. Python's \<^verbatim>\<open>None\<close> is \<open>JNull\<close>; a dict is
  an association list in insertion order. Numbers are restricted to integers.
\<close>

datatype json =
    JNull
  | JBool bool
  | JInt int
  | JStr string
  | JList "json list"
  | JObj "(string \<times> json) list"

text \<open>Python truthiness, as used by \<^verbatim>\<open>if created_task:\<close>.\<close>

fun truthy :: "json \<Rightarrow> bool" where
  "truthy JNull = False"
| "truthy (JBool b) = b"
| "truthy (JInt i) = (i \<noteq> 0)"
| "truthy (JStr s) = (s \<noteq> [])"
| "truthy (JList xs) = (xs \<noteq> [])"
| "truthy (JObj kvs) = (kvs \<noteq> [])"

text \<open>
  Every exception the client can raise. \<open>ClickupClientError message status\<close> is
  \<^verbatim>\<open>exceptions.ClickupClientError(message, status_code)\<close>: both arguments are
  Python values (the priority guard passes a string as the second one).
  \<open>OtherError\<close> is whatever an absent helper or the HTTP library raises.
\<close>

datatype error =
    ClickupClientError json json
  | NameError string
  | KeyError string
  | TypeError
  | UnboundLocalError string
  | JSONDecodeError
  | OtherError string

text \<open>
  \<^verbatim>\<open>response_json['err']\<close>: a dict without the key raises KeyError, any other
  value raises TypeError.
\<close>

fun getitem :: "json \<Rightarrow> string \<Rightarrow> error + json" where
  "getitem (JObj kvs) k = (case map_of kvs k of None \<Rightarrow> Inl (KeyError k) | Some v \<Rightarrow> Inr v)"
| "getitem JNull k = Inl TypeError"
| "getitem (JBool b) k = Inl TypeError"
| "getitem (JInt i) k = Inl TypeError"
| "getitem (JStr s) k = Inl TypeError"
| "getitem (JList xs) k = Inl TypeError"

text \<open>
  A \<^verbatim>\<open>requests.Response\<close>: the status code and the body, \<open>None\<close> when the body
  is not JSON (then \<^verbatim>\<open>response.json()\<close> raises). \<^verbatim>\<open>response.ok\<close> is the
  library's: true unless \<^verbatim>\<open>raise_for_status()\<close> raises, which it does for
  \<open>400 \<le> status_code < 600\<close>.
\<close>

record response =
  status_code :: int
  body :: "json option"

definition ok :: "response \<Rightarrow> bool" where
  "ok r = (\<not> (400 \<le> status_code r \<and> status_code r < 600))"

definition response_json :: "response \<Rightarrow> error + json" where
  "response_json r = (case body r of None \<Rightarrow> Inl JSONDecodeError | Some j \<Rightarrow> Inr j)"

text \<open>
  One call of \<^verbatim>\<open>requests.get/post/put/delete\<close>: the verb, the positional URL and
  the keyword arguments \<^verbatim>\<open>headers\<close>, \<^verbatim>\<open>data\<close>, \<^verbatim>\<open>files\<close>. \<open>JsonText j\<close> is
  the string \<^verbatim>\<open>json.dumps(j)\<close>; an upload passes a form dict instead. A file entry
  is the form field with the name of the opened file.
\<close>

datatype http_method = GET | POST | PUT | DELETE

datatype payload = NoData | JsonText json | FormData "(string \<times> string) list"

record request =
  verb :: http_method
  path :: string
  hdrs :: "(string \<times> string) list"
  data :: payload
  files :: "(string \<times> string) list"

definition json_dumps :: "json \<Rightarrow> payload" where
  "json_dumps j = JsonText j"

section \<open>The environment\<close>

text \<open>
  What the client calls and this module does not define: the helpers
  \<^verbatim>\<open>formatting.url_join\<close> and \<^verbatim>\<open>fuzzy_time_to_unix\<close>, the builders of the
  resource modules, the HTTP library (\<open>send\<close>: the server's answer to a request, or
  the exception raised), and the file system. \<open>'o\<close> is the type of the built
  resource objects; \<open>obj_truthy\<close> is their truth value.
\<close>

record 'o env =
  url_join :: "string \<Rightarrow> string \<Rightarrow> string list \<Rightarrow> string"
  fuzzy_time_to_unix :: "string \<Rightarrow> error + json"
  send :: "request \<Rightarrow> error + response"
  path_exists :: "string \<Rightarrow> bool"
  open_rb :: "string \<Rightarrow> error + string"
  basename :: "string \<Rightarrow> string"
  build_list :: "json \<Rightarrow> error + 'o"
  build_lists :: "json \<Rightarrow> error + 'o"
  build_folder :: "json \<Rightarrow> error + 'o"
  build_folders :: "json \<Rightarrow> error + 'o"
  build_attachment :: "json \<Rightarrow> error + 'o"
  build_task :: "json \<Rightarrow> error + 'o"
  build_tasks :: "json \<Rightarrow> error + 'o"
  build_comments :: "json \<Rightarrow> error + 'o"
  build_comment :: "json \<Rightarrow> error + 'o"
  obj_truthy :: "'o \<Rightarrow> bool"

section \<open>The client and its request dispatcher\<close>

definition API_URL :: string where
  "API_URL = ''https://api.clickup.com/api/v2/''"

record client =
  api_url :: string
  accesstoken :: string

definition ClickUpClient :: "string \<Rightarrow> string \<Rightarrow> client" where
  "ClickUpClient token url = \<lparr>api_url = url, accesstoken = token\<rparr>"

definition headers :: "client \<Rightarrow> bool \<Rightarrow> (string \<times> string) list" where
  "headers c file_upload =
     (if file_upload then [(''Authorization'', accesstoken c)]
      else [(''Authorization'', accesstoken c), (''Content-Type'', ''application/json'')])"

text \<open>
  Every dispatcher returns the requests it handed to the HTTP library together with
  its outcome: \<open>Inl\<close> the exception raised, \<open>Inr\<close> the value returned (\<open>JNull\<close>
  when the function falls off its end).
\<close>

definition get_request ::
  "'o env \<Rightarrow> client \<Rightarrow> string \<Rightarrow> string list \<Rightarrow> request list \<times> (error + json)" where
  "get_request env c model additionalpath =
     (let p = url_join env API_URL model additionalpath;
          req = \<lparr>verb = GET, path = p, hdrs = headers c False, data = NoData, files = []\<rparr>
      in case send env req of
           Inl e \<Rightarrow> ([req], Inl e)
         | Inr resp \<Rightarrow>
             ([req],
              case response_json resp of
                Inl e \<Rightarrow> Inl e
              | Inr rj \<Rightarrow>
                  if status_code resp = 429
                  then Inl (ClickupClientError (JStr ''Rate limit exceeded'') (JInt (status_code resp)))
                  else if status_code resp \<in> {401, 400}
                  then (case getitem rj ''err'' of
                          Inl e \<Rightarrow> Inl e
                        | Inr m \<Rightarrow> Inl (ClickupClientError m (JInt (status_code resp))))
                  else if ok resp then Inr rj
                  else Inr JNull))"

text \<open>
  \<^verbatim>\<open>__post_request(model, data, upload_files=None, file_upload=False, *additionalpath)\<close>:
  the branch is on the truth value of \<open>upload_files\<close>; \<open>file_upload\<close> is not read.
\<close>

definition post_request ::
  "'o env \<Rightarrow> client \<Rightarrow> string \<Rightarrow> payload \<Rightarrow> (string \<times> string) list option \<Rightarrow> bool \<Rightarrow> string list
     \<Rightarrow> request list \<times> (error + json)" where
  "post_request env c model dat upload_files file_upload additionalpath =
     (let p = url_join env API_URL model additionalpath;
          req = (case upload_files of
                   None \<Rightarrow> \<lparr>verb = POST, path = p, hdrs = headers c False, data = dat, files = []\<rparr>
                 | Some fs \<Rightarrow>
                     if fs \<noteq> []
                     then \<lparr>verb = POST, path = p, hdrs = headers c True, data = dat, files = fs\<rparr>
                     else \<lparr>verb = POST, path = p, hdrs = headers c False, data = dat, files = []\<rparr>)
      in case send env req of
           Inl e \<Rightarrow> ([req], Inl e)
         | Inr resp \<Rightarrow>
             ([req],
              case response_json resp of
                Inl e \<Rightarrow> Inl e
              | Inr rj \<Rightarrow>
                  if status_code resp = 401 \<or> status_code resp = 400 \<or> status_code resp = 500
                  then (case getitem rj ''err'' of
                          Inl e \<Rightarrow> Inl e
                        | Inr m \<Rightarrow> Inl (ClickupClientError m (JInt (status_code resp))))
                  else if ok resp then Inr rj
                  else Inr JNull))"

definition put_request ::
  "'o env \<Rightarrow> client \<Rightarrow> string \<Rightarrow> payload \<Rightarrow> string list \<Rightarrow> request list \<times> (error + json)" where
  "put_request env c model dat additionalpath =
     (let p = url_join env API_URL model additionalpath;
          req = \<lparr>verb = PUT, path = p, hdrs = headers c False, data = dat, files = []\<rparr>
      in case send env req of
           Inl e \<Rightarrow> ([req], Inl e)
         | Inr resp \<Rightarrow>
             ([req],
              case response_json resp of
                Inl e \<Rightarrow> Inl e
              | Inr rj \<Rightarrow>
                  if status_code resp = 401 \<or> status_code resp = 400
                  then (case getitem rj ''err'' of
                          Inl e \<Rightarrow> Inl e
                        | Inr m \<Rightarrow> Inl (ClickupClientError m (JInt (status_code resp))))
                  else if ok resp then Inr rj
                  else Inr JNull))"

text \<open>
  \<^verbatim>\<open>__delete_request\<close> never binds \<^verbatim>\<open>response_json\<close>: its else branch
  evaluates that name as the first argument of the exception and raises NameError.
\<close>

definition delete_request ::
  "'o env \<Rightarrow> client \<Rightarrow> string \<Rightarrow> string list \<Rightarrow> request list \<times> (error + json)" where
  "delete_request env c model additionalpath =
     (let p = url_join env API_URL model additionalpath;
          req = \<lparr>verb = DELETE, path = p, hdrs = headers c False, data = NoData, files = []\<rparr>
      in case send env req of
           Inl e \<Rightarrow> ([req], Inl e)
         | Inr resp \<Rightarrow>
             ([req],
              if ok resp then Inr (JInt (status_code resp))
              else Inl (NameError ''response_json'')))"

section \<open>Resource methods\<close>

text \<open>
  What a resource method returns: \<^verbatim>\<open>None\<close>, \<^verbatim>\<open>True\<close> or a built object.
  \<open>and_then\<close> continues after a dispatcher call unless it raised; \<open>built\<close> returns
  what a builder built; \<open>built_if_truthy\<close> is \<^verbatim>\<open>if final: return final\<close>.
\<close>

datatype 'o result = RNone | RTrue | RObj 'o

definition and_then ::
  "request list \<times> (error + 'a) \<Rightarrow> ('a \<Rightarrow> error + 'b) \<Rightarrow> request list \<times> (error + 'b)" where
  "and_then m f = (case m of (tr, Inl e) \<Rightarrow> (tr, Inl e) | (tr, Inr x) \<Rightarrow> (tr, f x))"

definition built :: "error + 'o \<Rightarrow> error + 'o result" where
  "built r = (case r of Inl e \<Rightarrow> Inl e | Inr x \<Rightarrow> Inr (RObj x))"

definition built_if_truthy :: "'o env \<Rightarrow> error + 'o \<Rightarrow> error + 'o result" where
  "built_if_truthy env r =
     (case r of Inl e \<Rightarrow> Inl e | Inr x \<Rightarrow> Inr (if obj_truthy env x then RObj x else RNone))"

text \<open>Arguments as Python values: \<open>None\<close> is \<^verbatim>\<open>None\<close>.\<close>

definition of_str :: "string option \<Rightarrow> json" where
  "of_str x = (case x of None \<Rightarrow> JNull | Some s \<Rightarrow> JStr s)"

definition of_int :: "int option \<Rightarrow> json" where
  "of_int x = (case x of None \<Rightarrow> JNull | Some i \<Rightarrow> JInt i)"

definition of_bool :: "bool option \<Rightarrow> json" where
  "of_bool x = (case x of None \<Rightarrow> JNull | Some b \<Rightarrow> JBool b)"

definition of_list :: "json list option \<Rightarrow> json" where
  "of_list x = (case x of None \<Rightarrow> JNull | Some xs \<Rightarrow> JList xs)"

text \<open>\<^verbatim>\<open>{k: v for k, v in arguments.items() if v is not None}\<close>\<close>

definition not_none :: "(string \<times> json) list \<Rightarrow> (string \<times> json) list" where
  "not_none arguments = filter (\<lambda>(k, v). v \<noteq> JNull) arguments"

text \<open>\<^verbatim>\<open>priority and priority not in range(1, 4)\<close>\<close>

definition priority_rejected :: "int option \<Rightarrow> bool" where
  "priority_rejected priority =
     (case priority of None \<Rightarrow> False | Some p \<Rightarrow> p \<noteq> 0 \<and> \<not> (1 \<le> p \<and> p < 4))"

definition priority_error :: error where
  "priority_error =
     ClickupClientError (JStr ''Priority must be in range of 0-4.'') (JStr ''Priority out of range'')"

definition get_list :: "'o env \<Rightarrow> client \<Rightarrow> string \<Rightarrow> request list \<times> (error + 'o result)" where
  "get_list env c list_id =
     and_then (get_request env c ''list/'' [list_id]) (\<lambda>fetched_list. built (build_list env fetched_list))"

definition get_lists :: "'o env \<Rightarrow> client \<Rightarrow> string \<Rightarrow> request list \<times> (error + 'o result)" where
  "get_lists env c folder_id =
     and_then (get_request env c ''folder/'' [folder_id])
       (\<lambda>fetched_lists. built (build_lists env fetched_lists))"

definition create_list ::
  "'o env \<Rightarrow> client \<Rightarrow> string \<Rightarrow> string option \<Rightarrow> string option \<Rightarrow> string option \<Rightarrow> int option
     \<Rightarrow> string option \<Rightarrow> request list \<times> (error + 'o result)" where
  "create_list env c folder_id name content due_date priority status =
     (let dat = JObj [(''name'', of_str name), (''content'', of_str content),
                      (''due_date'', of_str due_date), (''status'', of_str status)]
      in and_then (post_request env c ''folder/'' (json_dumps dat) None False [folder_id, ''list''])
           (\<lambda>created_list.
              if truthy created_list then built (build_list env created_list) else Inr RNone))"

definition get_folder :: "'o env \<Rightarrow> client \<Rightarrow> string \<Rightarrow> request list \<times> (error + 'o result)" where
  "get_folder env c folder_id =
     and_then (get_request env c ''folder/'' [folder_id])
       (\<lambda>fetched_folder.
          if truthy fetched_folder then built (build_folder env fetched_folder) else Inr RNone)"

definition get_folders :: "'o env \<Rightarrow> client \<Rightarrow> string \<Rightarrow> request list \<times> (error + 'o result)" where
  "get_folders env c space_id =
     and_then (get_request env c ''space/'' [space_id, ''folder''])
       (\<lambda>fetched_folders.
          if truthy fetched_folders then built (build_folders env fetched_folders) else Inr RNone)"

definition create_folder ::
  "'o env \<Rightarrow> client \<Rightarrow> string \<Rightarrow> string option \<Rightarrow> request list \<times> (error + 'o result)" where
  "create_folder env c space_id name =
     (let dat = JObj [(''name'', of_str name)]
      in and_then (post_request env c ''space/'' (json_dumps dat) None False [space_id, ''folder''])
           (\<lambda>created_folder.
              if truthy created_folder then built (build_folder env created_folder) else Inr RNone))"

definition update_folder ::
  "'o env \<Rightarrow> client \<Rightarrow> string \<Rightarrow> string option \<Rightarrow> request list \<times> (error + 'o result)" where
  "update_folder env c folder_id name =
     (let dat = JObj [(''name'', of_str name)]
      in and_then (put_request env c ''folder/'' (json_dumps dat) [folder_id])
           (\<lambda>updated_folder.
              if truthy updated_folder then built (build_folder env updated_folder) else Inr RNone))"

definition delete_folder :: "'o env \<Rightarrow> client \<Rightarrow> string \<Rightarrow> request list \<times> (error + 'o result)" where
  "delete_folder env c folder_id =
     and_then (delete_request env c ''folder/'' [folder_id]) (\<lambda>deleted_folder_status. Inr RTrue)"

text \<open>
  \<^verbatim>\<open>upload_attachment\<close> opens the file twice; \<^verbatim>\<open>f.name\<close> is what \<open>open_rb\<close>
  returns. \<^verbatim>\<open>final_attachment\<close> is bound only when the dispatcher returned a
  truthy value, and is returned either way. With no file at \<open>file_path\<close> the
  function falls off its end.
\<close>

definition upload_attachment ::
  "'o env \<Rightarrow> client \<Rightarrow> string \<Rightarrow> string \<Rightarrow> request list \<times> (error + 'o result)" where
  "upload_attachment env c task_id file_path =
     (if path_exists env file_path
      then (case open_rb env file_path of
              Inl e \<Rightarrow> ([], Inl e)
            | Inr f_name \<Rightarrow>
                (case open_rb env file_path of
                   Inl e \<Rightarrow> ([], Inl e)
                 | Inr f2 \<Rightarrow>
                     (let fs = [(''attachment'', f_name)];
                          dat = FormData [(''filename'', basename env f_name)];
                          model = ''task/'' @ task_id
                      in and_then (post_request env c model dat (Some fs) True [''attachment''])
                           (\<lambda>uploaded_attachment.
                              if truthy uploaded_attachment
                              then built (build_attachment env uploaded_attachment)
                              else Inl (UnboundLocalError ''final_attachment'')))))
      else ([], Inr RNone))"

definition get_task :: "'o env \<Rightarrow> client \<Rightarrow> string \<Rightarrow> request list \<times> (error + 'o result)" where
  "get_task env c task_id =
     and_then (get_request env c ''task/'' [task_id])
       (\<lambda>fetched_task. built_if_truthy env (build_task env fetched_task))"

definition get_tasks :: "'o env \<Rightarrow> client \<Rightarrow> string \<Rightarrow> request list \<times> (error + 'o result)" where
  "get_tasks env c list_id =
     and_then (get_request env c ''list/'' [list_id, ''task''])
       (\<lambda>fetched_tasks. built (build_tasks env fetched_tasks))"

text \<open>
  \<^verbatim>\<open>create_task\<close>: the priority guard, then the conversion of a truthy
  \<open>due_date\<close> (and of nothing else), then the dict of the remaining local
  variables in their order, filtered and serialised.
\<close>

definition create_task ::
  "'o env \<Rightarrow> client \<Rightarrow> string \<Rightarrow> string option \<Rightarrow> string option \<Rightarrow> int option \<Rightarrow> json list option
     \<Rightarrow> json list option \<Rightarrow> string option \<Rightarrow> string option \<Rightarrow> string option \<Rightarrow> bool option
     \<Rightarrow> request list \<times> (error + 'o result)" where
  "create_task env c list_id name description priority assignees tags status due_date start_date
       notify_all =
     (if priority_rejected priority then ([], Inl priority_error)
      else
        (case (case due_date of
                 None \<Rightarrow> Inr JNull
               | Some d \<Rightarrow> if d \<noteq> [] then fuzzy_time_to_unix env d else Inr (JStr d)) of
           Inl e \<Rightarrow> ([], Inl e)
         | Inr due_date' \<Rightarrow>
             (let arguments =
                    [(''name'', of_str name), (''description'', of_str description),
                     (''priority'', of_int priority), (''assignees'', of_list assignees),
                     (''tags'', of_list tags), (''status'', of_str status),
                     (''due_date'', due_date'), (''start_date'', of_str start_date),
                     (''notify_all'', of_bool notify_all)];
                  final_dict = json_dumps (JObj (not_none arguments))
              in and_then (post_request env c ''list/'' final_dict None False [list_id, ''task''])
                   (\<lambda>created_task.
                      if truthy created_task then built (build_task env created_task)
                      else Inr RNone))))"

definition update_task ::
  "'o env \<Rightarrow> client \<Rightarrow> string \<Rightarrow> string option \<Rightarrow> string option \<Rightarrow> string option \<Rightarrow> int option
     \<Rightarrow> int option \<Rightarrow> bool option \<Rightarrow> json list option \<Rightarrow> json list option
     \<Rightarrow> request list \<times> (error + 'o result)" where
  "update_task env c task_id name description status priority time_estimate archived
       add_assignees remove_assignees =
     (if priority_rejected priority then ([], Inl priority_error)
      else
        (let arguments =
               [(''name'', of_str name), (''description'', of_str description),
                (''status'', of_str status), (''priority'', of_int priority),
                (''time_estimate'', of_int time_estimate), (''archived'', of_bool archived)];
             arguments' =
               (if truthy (of_list add_assignees) \<and> truthy (of_list remove_assignees)
                then arguments @
                       [(''assignees'', JObj [(''add'', of_list add_assignees),
                                              (''rem'', of_list remove_assignees)])]
                else if truthy (of_list add_assignees)
                then arguments @ [(''assignees'', JObj [(''add'', of_list add_assignees)])]
                else if truthy (of_list remove_assignees)
                then arguments @ [(''assignees'', JObj [(''rem'', of_list remove_assignees)])]
                else arguments);
             final_dict = json_dumps (JObj (not_none arguments'))
         in and_then (put_request env c ''task/'' final_dict [task_id])
              (\<lambda>updated_task.
                 if truthy updated_task then built (build_task env updated_task) else Inr RNone)))"

definition delete_task :: "'o env \<Rightarrow> client \<Rightarrow> string \<Rightarrow> request list \<times> (error + 'o result)" where
  "delete_task env c task_id =
     and_then (delete_request env c ''task/'' [task_id]) (\<lambda>deleted_task_status. Inr RTrue)"

definition get_task_comments ::
  "'o env \<Rightarrow> client \<Rightarrow> string \<Rightarrow> request list \<times> (error + 'o result)" where
  "get_task_comments env c task_id =
     and_then (get_request env c ''task/'' [task_id, ''comment''])
       (\<lambda>fetched_comments. built_if_truthy env (build_comments env fetched_comments))"

definition get_list_comments ::
  "'o env \<Rightarrow> client \<Rightarrow> string \<Rightarrow> request list \<times> (error + 'o result)" where
  "get_list_comments env c list_id =
     and_then (get_request env c ''list/'' [list_id, ''comment''])
       (\<lambda>fetched_comments. built_if_truthy env (build_comments env fetched_comments))"

definition get_chat_comments ::
  "'o env \<Rightarrow> client \<Rightarrow> string \<Rightarrow> request list \<times> (error + 'o result)" where
  "get_chat_comments env c view_id =
     and_then (get_request env c ''view/'' [view_id, ''comment''])
       (\<lambda>fetched_comments. built_if_truthy env (build_comments env fetched_comments))"

definition update_comment ::
  "'o env \<Rightarrow> client \<Rightarrow> string \<Rightarrow> string option \<Rightarrow> string option \<Rightarrow> bool option
     \<Rightarrow> request list \<times> (error + 'o result)" where
  "update_comment env c comment_id comment_text assignee resolved =
     (let arguments =
            [(''comment_text'', of_str comment_text), (''assignee'', of_str assignee),
             (''resolved'', of_bool resolved)];
          final_dict = json_dumps (JObj (not_none arguments))
      in and_then (put_request env c ''comment/'' final_dict [comment_id])
           (\<lambda>updated_comment. if truthy updated_comment then Inr RTrue else Inr RNone))"

definition delete_comment :: "'o env \<Rightarrow> client \<Rightarrow> string \<Rightarrow> request list \<times> (error + 'o result)" where
  "delete_comment env c comment_id =
     and_then (delete_request env c ''comment/'' [comment_id]) (\<lambda>deleted_comment_status. Inr RTrue)"

definition create_task_comment ::
  "'o env \<Rightarrow> client \<Rightarrow> string \<Rightarrow> string option \<Rightarrow> string option \<Rightarrow> bool option
     \<Rightarrow> request list \<times> (error + 'o result)" where
  "create_task_comment env c task_id comment_text assignee notify_all =
     (let arguments =
            [(''comment_text'', of_str comment_text), (''assignee'', of_str assignee),
             (''notify_all'', of_bool notify_all)];
          final_dict = json_dumps (JObj (not_none arguments))
      in and_then (post_request env c ''task/'' final_dict None False [task_id, ''comment''])
           (\<lambda>created_comment. built_if_truthy env (build_comment env created_comment)))"

section \<open>The method surface\<close>

text \<open>
  One constructor per public method of \<^verbatim>\<open>ClickUpClient\<close>, with its arguments in
  the order of the signature; \<open>invoke\<close> calls the method.
\<close>

datatype call =
    Get_list string
  | Get_lists string
  | Create_list string "string option" "string option" "string option" "int option" "string option"
  | Get_folder string
  | Get_folders string
  | Create_folder string "string option"
  | Update_folder string "string option"
  | Delete_folder string
  | Upload_attachment string string
  | Get_task string
  | Get_tasks string
  | Create_task string "string option" "string option" "int option" "json list option"
      "json list option" "string option" "string option" "string option" "bool option"
  | Update_task string "string option" "string option" "string option" "int option" "int option"
      "bool option" "json list option" "json list option"
  | Delete_task string
  | Get_task_comments string
  | Get_list_comments string
  | Get_chat_comments string
  | Update_comment string "string option" "string option" "bool option"
  | Delete_comment string
  | Create_task_comment string "string option" "string option" "bool option"

fun invoke :: "'o env \<Rightarrow> client \<Rightarrow> call \<Rightarrow> request list \<times> (error + 'o result)" where
  "invoke env c (Get_list i) = get_list env c i"
| "invoke env c (Get_lists i) = get_lists env c i"
| "invoke env c (Create_list i n ct d p s) = create_list env c i n ct d p s"
| "invoke env c (Get_folder i) = get_folder env c i"
| "invoke env c (Get_folders i) = get_folders env c i"
| "invoke env c (Create_folder i n) = create_folder env c i n"
| "invoke env c (Update_folder i n) = update_folder env c i n"
| "invoke env c (Delete_folder i) = delete_folder env c i"
| "invoke env c (Upload_attachment i f) = upload_attachment env c i f"
| "invoke env c (Get_task i) = get_task env c i"
| "invoke env c (Get_tasks i) = get_tasks env c i"
| "invoke env c (Create_task i n d p a t s dd sd na) = create_task env c i n d p a t s dd sd na"
| "invoke env c (Update_task i n d s p te ar aa ra) = update_task env c i n d s p te ar aa ra"
| "invoke env c (Delete_task i) = delete_task env c i"
| "invoke env c (Get_task_comments i) = get_task_comments env c i"
| "invoke env c (Get_list_comments i) = get_list_comments env c i"
| "invoke env c (Get_chat_comments i) = get_chat_comments env c i"
| "invoke env c (Update_comment i t a r) = update_comment env c i t a r"
| "invoke env c (Delete_comment i) = delete_comment env c i"
| "invoke env c (Create_task_comment i t a na) = create_task_comment env c i t a na"

text \<open>The keys of a request's serialised JSON object, and the value under a key.\<close>

definition body_keys :: "request \<Rightarrow> string list" where
  "body_keys req = (case data req of JsonText (JObj kvs) \<Rightarrow> map fst kvs | _ \<Rightarrow> [])"

definition body_value :: "request \<Rightarrow> string \<Rightarrow> json option" where
  "body_value req k = (case data req of JsonText (JObj kvs) \<Rightarrow> map_of kvs k | _ \<Rightarrow> None)"

section \<open>An example environment\<close>

text \<open>
  A server that answers every request with the same response, a file system holding
  one file, helpers that join with slashes and convert every date to one instant,
  and builders that return the payload they are given.
\<close>

definition example_env :: "response \<Rightarrow> json env" where
  "example_env r =
     \<lparr>url_join = (\<lambda>root model segs. root @ model @ concat (map (\<lambda>s. s @ ''/'') segs)),
      fuzzy_time_to_unix = (\<lambda>s. Inr (JInt 1767225600000)),
      send = (\<lambda>req. Inr r),
      path_exists = (\<lambda>p. p = ''/tmp/report.pdf''),
      open_rb = (\<lambda>p. Inr p),
      basename = (\<lambda>p. ''report.pdf''),
      build_list = Inr, build_lists = Inr, build_folder = Inr, build_folders = Inr,
      build_attachment = Inr, build_task = Inr, build_tasks = Inr, build_comments = Inr,
      build_comment = Inr,
      obj_truthy = truthy\<rparr>"

definition example_client :: client where
  "example_client = ClickUpClient ''pk_token'' API_URL"

section \<open>Auxiliary facts\<close>

subsection \<open>The requests a call hands to the HTTP library\<close>

lemma fst_and_then: "fst (and_then m f) = fst m"
  by (cases m) (simp add: and_then_def split: sum.splits)

lemma fst_get_request:
  "fst (get_request env c model segs) =
     [\<lparr>verb = GET, path = url_join env API_URL model segs, hdrs = headers c False,
       data = NoData, files = []\<rparr>]"
  by (simp add: get_request_def Let_def split: sum.splits)

lemma fst_post_request:
  "fst (post_request env c model dat upload_files fu segs) =
     [\<lparr>verb = POST, path = url_join env API_URL model segs,
       hdrs = headers c (upload_files \<noteq> None \<and> upload_files \<noteq> Some []), data = dat,
       files = (case upload_files of None \<Rightarrow> [] | Some fs \<Rightarrow> fs)\<rparr>]"
  by (simp add: post_request_def Let_def split: sum.splits option.splits)

lemma fst_put_request:
  "fst (put_request env c model dat segs) =
     [\<lparr>verb = PUT, path = url_join env API_URL model segs, hdrs = headers c False,
       data = dat, files = []\<rparr>]"
  by (simp add: put_request_def Let_def split: sum.splits)

lemma fst_delete_request:
  "fst (delete_request env c model segs) =
     [\<lparr>verb = DELETE, path = url_join env API_URL model segs, hdrs = headers c False,
       data = NoData, files = []\<rparr>]"
  by (simp add: delete_request_def Let_def split: sum.splits)

lemmas fst_dispatch =
  fst_and_then fst_get_request fst_post_request fst_put_request fst_delete_request

lemmas method_defs =
  get_list_def get_lists_def create_list_def get_folder_def get_folders_def create_folder_def
  update_folder_def delete_folder_def upload_attachment_def get_task_def get_tasks_def
  create_task_def update_task_def delete_task_def get_task_comments_def get_list_comments_def
  get_chat_comments_def update_comment_def delete_comment_def create_task_comment_def

subsection \<open>Filtering the arguments\<close>

lemma of_eq_JNull [simp]:
  "of_str s = JNull \<longleftrightarrow> s = None"
  "of_int i = JNull \<longleftrightarrow> i = None"
  "of_bool b = JNull \<longleftrightarrow> b = None"
  "of_list l = JNull \<longleftrightarrow> l = None"
  by (simp_all add: of_str_def of_int_def of_bool_def of_list_def split: option.splits)


lemma not_none_Nil: "not_none [] = []"
  by (simp add: not_none_def)

lemma not_none_Cons:
  "not_none ((k, v) # kvs) = (if v = JNull then not_none kvs else (k, v) # not_none kvs)"
  by (simp add: not_none_def)



lemma create_task_trace:
  "fst (create_task env c list_id name description priority assignees tags status due_date
          start_date notify_all) =
     (if priority_rejected priority then []
      else case (case due_date of
                   None \<Rightarrow> Inr JNull
                 | Some d \<Rightarrow> if d \<noteq> [] then fuzzy_time_to_unix env d else Inr (JStr d)) of
             Inl e \<Rightarrow> []
           | Inr dd \<Rightarrow>
               [\<lparr>verb = POST, path = url_join env API_URL ''list/'' [list_id, ''task''],
                 hdrs = headers c False,
                 data = json_dumps (JObj (not_none
                    [(''name'', of_str name), (''description'', of_str description),
                     (''priority'', of_int priority), (''assignees'', of_list assignees),
                     (''tags'', of_list tags), (''status'', of_str status),
                     (''due_date'', dd), (''start_date'', of_str start_date),
                     (''notify_all'', of_bool notify_all)])),
                 files = []\<rparr>])"
  by (simp add: create_task_def Let_def fst_dispatch split: sum.splits)






subsection \<open>The constructor's second argument\<close>

lemma get_request_api_url:
  "get_request env (ClickUpClient token u) = get_request env (ClickUpClient token u')"
  by (intro ext) (simp add: get_request_def headers_def ClickUpClient_def)

lemma post_request_api_url:
  "post_request env (ClickUpClient token u) = post_request env (ClickUpClient token u')"
  unfolding post_request_def headers_def ClickUpClient_def client.select_convs by (rule refl)

lemma put_request_api_url:
  "put_request env (ClickUpClient token u) = put_request env (ClickUpClient token u')"
  by (intro ext) (simp add: put_request_def headers_def ClickUpClient_def)

lemma delete_request_api_url:
  "delete_request env (ClickUpClient token u) = delete_request env (ClickUpClient token u')"
  by (intro ext) (simp add: delete_request_def headers_def ClickUpClient_def)

lemma invoke_api_url:
  "invoke env (ClickUpClient token u) call = invoke env (ClickUpClient token u') call"
  by (cases call)
     (simp_all only: invoke.simps method_defs get_request_api_url [of env token u u']
        post_request_api_url [of env token u u'] put_request_api_url [of env token u u']
        delete_request_api_url [of env token u u'])

lemma ex_url_join:
  "\<exists>model segs. url_join env API_URL m s = url_join env API_URL model segs"
  by blast

lemma invoke_paths:
  assumes "req \<in> set (fst (invoke env c call))"
  shows "\<exists>model segs. path req = url_join env API_URL model segs"
proof -
  have "fst (invoke env c call) = [] \<or>
        (\<exists>model segs v h d f.
           fst (invoke env c call) =
             [\<lparr>verb = v, path = url_join env API_URL model segs, hdrs = h, data = d, files = f\<rparr>])"
    by (cases call)
       (simp_all add: method_defs Let_def fst_dispatch split: sum.splits, blast+)
  with assms show ?thesis by (auto simp: ex_url_join)
qed

section \<open>The claims\<close>

subsection \<open>C1: the priority guard\<close>

text \<open>
  C1 says that a non-null priority outside 1..4 raises the client error before any
  request and that a priority inside 1..4 lets the request proceed. The guard tests
  \<^verbatim>\<open>priority not in range(1, 4)\<close>, which excludes 4: with priority 4 both
  \<open>create_task\<close> and \<open>update_task\<close> raise the priority error with no request
  issued, whatever the other arguments. Priority 0 is falsy, so it passes the guard
  and \<open>update_task\<close> issues its request.
\<close>

theorem priority_four_rejected:
  "create_task env c list_id name description (Some 4) assignees tags status due_date start_date
     notify_all = ([], Inl priority_error)
   \<and> update_task env c task_id name description status (Some 4) time_estimate archived
       add_assignees remove_assignees = ([], Inl priority_error)
   \<and> length (fst (update_task env c task_id name description status (Some 0) time_estimate
                    archived add_assignees remove_assignees)) = 1"
  by (simp add: create_task_def update_task_def priority_rejected_def Let_def fst_dispatch)

subsection \<open>C2: status 429\<close>

text \<open>
  C2 says that a response with status 429 raises the rate-limit error whatever the
  HTTP method. Only \<open>get_request\<close> tests for 429. When the server answers 429 with
  a JSON body, \<open>post_request\<close> and \<open>put_request\<close> return \<^verbatim>\<open>None\<close> and
  \<open>delete_request\<close> raises NameError.
\<close>

theorem rate_limit_only_on_get:
  "snd (post_request (env\<lparr>send := \<lambda>req. Inr \<lparr>status_code = 429, body = Some j\<rparr>\<rparr>) c model dat
          upload_files file_upload additionalpath) = Inr JNull
   \<and> snd (put_request (env\<lparr>send := \<lambda>req. Inr \<lparr>status_code = 429, body = Some j\<rparr>\<rparr>) c model dat
            additionalpath) = Inr JNull
   \<and> snd (delete_request (env\<lparr>send := \<lambda>req. Inr \<lparr>status_code = 429, body = Some j\<rparr>\<rparr>) c model
            additionalpath) = Inl (NameError ''response_json'')"
  by (simp add: post_request_def put_request_def delete_request_def response_json_def ok_def
        Let_def)

subsection \<open>C3: statuses 400, 401 and, for writes, 500\<close>

text \<open>
  C3 says that 400 and 401, and 500 for POST, PUT and DELETE, raise the client error
  with the server's message and the status code. \<open>put_request\<close> tests for 401 and
  400 only: when the server answers 500 with an \<^verbatim>\<open>err\<close> message, it returns
  \<^verbatim>\<open>None\<close> and raises nothing.
\<close>

theorem put_500_falls_through:
  "snd (put_request (env\<lparr>send := \<lambda>req. Inr \<lparr>status_code = 500, body = Some (JObj [(''err'', m)])\<rparr>\<rparr>)
          c model dat additionalpath) = Inr JNull"
  by (simp add: put_request_def response_json_def ok_def Let_def)

subsection \<open>C4: failed DELETE requests\<close>

text \<open>
  C4 says that a DELETE whose response is not a success raises the client error with
  the server's message and the status code. Whatever the server answers,
  \<open>delete_request\<close> returns the status code when the library counts the response
  as ok and raises NameError otherwise: never the client error.
\<close>

theorem delete_request_outcome:
  "snd (delete_request (env\<lparr>send := \<lambda>req. Inr r\<rparr>) c model additionalpath) =
     (if 400 \<le> status_code r \<and> status_code r < 600 then Inl (NameError ''response_json'')
      else Inr (JInt (status_code r)))"
  by (simp add: delete_request_def ok_def Let_def)

subsection \<open>C5: GET responses with an unrecognised status\<close>

text \<open>
  C5 says that a GET response whose status is none of 429, 400, 401 and not 2xx makes
  the dispatcher return \<^verbatim>\<open>None\<close>, neither raising nor returning a parsed body.
  It fails at status 300 with a JSON body, which the library counts as ok, so the
  parsed body is returned; and at status 404 with a body that is not JSON, where
  \<^verbatim>\<open>response.json()\<close> raises before any status is tested.
\<close>

theorem get_request_fallthrough_counterexample:
  "snd (get_request (example_env \<lparr>status_code = 300, body = Some (JObj [(''id'', JStr ''9'')])\<rparr>)
          example_client ''list/'' [''9'']) = Inr (JObj [(''id'', JStr ''9'')])
   \<and> snd (get_request (example_env \<lparr>status_code = 404, body = None\<rparr>)
            example_client ''list/'' [''9'']) = Inl JSONDecodeError"
  by (simp add: get_request_def example_env_def response_json_def ok_def Let_def)

text \<open>
  C5, amended: the body of a GET response is parsed before any status is tested.
  When the body is not JSON, the dispatcher raises the decoder's error whatever the
  status, 429, 400 and 401 included. When the body is JSON and the status is none of
  429, 400, 401, the dispatcher raises nothing: it returns \<^verbatim>\<open>None\<close> when the
  status is in 400..599 and the parsed body for every other status.
\<close>

theorem get_request_unrecognised_status:
  assumes "send env \<lparr>verb = GET, path = url_join env API_URL model additionalpath,
                     hdrs = headers c False, data = NoData, files = []\<rparr> = Inr r"
  shows "(body r = None \<longrightarrow>
            snd (get_request env c model additionalpath) = Inl JSONDecodeError)
       \<and> (\<forall>j. body r = Some j \<longrightarrow> status_code r \<notin> {429, 400, 401} \<longrightarrow>
            snd (get_request env c model additionalpath) =
              (if 400 \<le> status_code r \<and> status_code r < 600 then Inr JNull else Inr j))"
  using assms by (simp add: get_request_def response_json_def ok_def Let_def)

theorem get_request_unrecognised_status_witness:
  "snd (get_request (example_env \<lparr>status_code = 404, body = Some (JObj [(''err'', JStr ''Not found'')])\<rparr>)
          example_client ''list/'' [''9'']) = Inr JNull
   \<and> snd (get_request (example_env \<lparr>status_code = 204, body = Some (JObj [])\<rparr>)
            example_client ''list/'' [''9'']) = Inr (JObj [])
   \<and> snd (get_request (example_env \<lparr>status_code = 429, body = None\<rparr>)
            example_client ''list/'' [''9'']) = Inl JSONDecodeError
   \<and> snd (get_request (example_env \<lparr>status_code = 200, body = None\<rparr>)
            example_client ''list/'' [''9'']) = Inl JSONDecodeError"
  using get_request_unrecognised_status
          [where env = "example_env \<lparr>status_code = 404, body = Some (JObj [(''err'', JStr ''Not found'')])\<rparr>"
             and model = "''list/''" and additionalpath = "[''9'']" and c = example_client
             and r = "\<lparr>status_code = 404, body = Some (JObj [(''err'', JStr ''Not found'')])\<rparr>"]
        get_request_unrecognised_status
          [where env = "example_env \<lparr>status_code = 204, body = Some (JObj [])\<rparr>"
             and model = "''list/''" and additionalpath = "[''9'']" and c = example_client
             and r = "\<lparr>status_code = 204, body = Some (JObj [])\<rparr>"]
        get_request_unrecognised_status
          [where env = "example_env \<lparr>status_code = 429, body = None\<rparr>"
             and model = "''list/''" and additionalpath = "[''9'']" and c = example_client
             and r = "\<lparr>status_code = 429, body = None\<rparr>"]
        get_request_unrecognised_status
          [where env = "example_env \<lparr>status_code = 200, body = None\<rparr>"
             and model = "''list/''" and additionalpath = "[''9'']" and c = example_client
             and r = "\<lparr>status_code = 200, body = None\<rparr>"]
  by (simp add: example_env_def)

subsection \<open>C6: parameters left as None\<close>




subsection \<open>C7: the body of create\_list\<close>

text \<open>
  C7 says that the body of \<open>create_list\<close> holds exactly the parameters among name,
  content, due\_date, priority and status that are non-null. With a name and a
  priority and the rest \<^verbatim>\<open>None\<close>, the body has the four keys name, content,
  due\_date and status: content is there with the value null.
\<close>

theorem create_list_body_counterexample:
  "map body_keys (fst (create_list (example_env \<lparr>status_code = 200, body = Some (JObj [])\<rparr>)
          example_client ''f1'' (Some ''Sprint'') None None (Some 1) None))
     = [[''name'', ''content'', ''due_date'', ''status'']]
   \<and> map (\<lambda>req. body_value req ''content'')
        (fst (create_list (example_env \<lparr>status_code = 200, body = Some (JObj [])\<rparr>)
          example_client ''f1'' (Some ''Sprint'') None None (Some 1) None)) = [Some JNull]"
  by (simp add: create_list_def Let_def fst_dispatch body_keys_def body_value_def json_dumps_def
        of_str_def)

text \<open>
  C7, amended: every call to \<open>create_list\<close> issues one POST request whose body
  holds name, content, due\_date and status, each under its own key with the value
  passed, \<^verbatim>\<open>None\<close> as null.
\<close>

theorem create_list_body:
  "\<exists>req. fst (create_list env c folder_id name content due_date priority status) = [req]
     \<and> verb req = POST
     \<and> body_value req ''name'' = Some (of_str name)
     \<and> body_value req ''content'' = Some (of_str content)
     \<and> body_value req ''due_date'' = Some (of_str due_date)
     \<and> body_value req ''status'' = Some (of_str status)"
  by (simp add: create_list_def Let_def fst_dispatch body_value_def json_dumps_def)

subsection \<open>C8: date conversion in create\_task\<close>

text \<open>
  C8 says that \<open>create_task\<close> converts a date expression given as due\_date or as
  start\_date before serialising it. Only due\_date is converted: a start\_date
  \<open>s\<close> is serialised as the string it was given, whatever the conversion helper
  does.
\<close>

theorem start_date_not_converted:
  "map data (fst (create_task env c list_id (Some n) None None None None None None (Some s)
                    (Some True))) =
     [json_dumps (JObj [(''name'', JStr n), (''start_date'', JStr s), (''notify_all'', JBool True)])]"
  by (simp add: create_task_trace priority_rejected_def not_none_Cons not_none_Nil
        of_str_def of_int_def of_bool_def of_list_def)

subsection \<open>C9: the API root\<close>

text \<open>
  C9: for every method and every access token, the URL of each request is built from
  the module constant \<open>API_URL\<close>; the \<open>api_url\<close> given to the constructor is
  stored and changes neither the requests issued nor the outcome.
\<close>

theorem api_url_unused:
  "api_url (ClickUpClient token u) = u
   \<and> invoke env (ClickUpClient token u) call = invoke env (ClickUpClient token API_URL) call
   \<and> (\<forall>req \<in> set (fst (invoke env (ClickUpClient token u) call)).
        \<exists>model segs. path req = url_join env ''https://api.clickup.com/api/v2/'' model segs)"
proof (intro conjI)
  show "api_url (ClickUpClient token u) = u"
    by (simp add: ClickUpClient_def)
  show "invoke env (ClickUpClient token u) call = invoke env (ClickUpClient token API_URL) call"
    by (rule invoke_api_url)
  show "\<forall>req \<in> set (fst (invoke env (ClickUpClient token u) call)).
          \<exists>model segs. path req = url_join env ''https://api.clickup.com/api/v2/'' model segs"
    using invoke_paths [of _ env "ClickUpClient token u" call] by (simp add: API_URL_def)
qed

theorem api_url_unused_witness:
  "fst (invoke (example_env \<lparr>status_code = 200, body = Some (JObj [])\<rparr>)
          (ClickUpClient ''pk_token'' ''http://localhost:8080/'') (Get_task ''t1'')) \<noteq> []
   \<and> invoke (example_env \<lparr>status_code = 200, body = Some (JObj [])\<rparr>)
       (ClickUpClient ''pk_token'' ''http://localhost:8080/'') (Get_task ''t1'')
     = invoke (example_env \<lparr>status_code = 200, body = Some (JObj [])\<rparr>)
         (ClickUpClient ''pk_token'' API_URL) (Get_task ''t1'')
   \<and> list_all (\<lambda>req. \<exists>model segs. path req =
          url_join (example_env \<lparr>status_code = 200, body = Some (JObj [])\<rparr>)
            ''https://api.clickup.com/api/v2/'' model segs)
       (fst (invoke (example_env \<lparr>status_code = 200, body = Some (JObj [])\<rparr>)
               (ClickUpClient ''pk_token'' ''http://localhost:8080/'') (Get_task ''t1'')))"
  using api_url_unused
          [where env = "example_env \<lparr>status_code = 200, body = Some (JObj [])\<rparr>"
             and token = "''pk_token''" and u = "''http://localhost:8080/''"
             and call = "Get_task ''t1''"]
  by (simp add: get_task_def fst_dispatch list_all_iff)

subsection \<open>C10: uploading a file that does not exist\<close>

text \<open>
  C10: when \<open>file_path\<close> does not exist, \<open>upload_attachment\<close> returns
  \<^verbatim>\<open>None\<close>, issues no request and raises nothing.
\<close>

theorem upload_attachment_missing_file:
  "\<not> path_exists env file_path \<Longrightarrow> upload_attachment env c task_id file_path = ([], Inr RNone)"
  by (simp add: upload_attachment_def)

theorem upload_attachment_missing_file_witness:
  "\<not> path_exists (example_env \<lparr>status_code = 200, body = Some (JObj [])\<rparr>) ''/tmp/missing.txt''
   \<and> upload_attachment (example_env \<lparr>status_code = 200, body = Some (JObj [])\<rparr>) example_client
       ''t1'' ''/tmp/missing.txt'' = ([], Inr RNone)"
  using upload_attachment_missing_file
          [of "example_env \<lparr>status_code = 200, body = Some (JObj [])\<rparr>" "''/tmp/missing.txt''"
              example_client "''t1''"]
  by (simp add: example_env_def)

end
